theory Spec2Isabelle
  imports Complex_Main
begin

section \<open>Python values and exceptions\<close>

text \<open>
  The two modules compute with Python numbers. Integers are modelled as \<open>int\<close>; a value
  documented as "int or float", and every result of the true division \<open>/\<close>, is a
  double in the code and is modelled as the exact \<open>real\<close> it stands for. The model
  neither rounds nor overflows nor underflows, so a general statement about it is a
  statement about the code only where the doubles stay in range and rounding cannot
  change what is claimed; such statements below carry explicit bounds on their inputs.
  An exception is a value: a function that can raise returns \<open>exn + 'a\<close>, with
  \<open>Inl\<close> for the exception, and the first exception raised ends the computation.
  Only the exceptions of indexing and of division by zero are modelled.
\<close>

datatype exn = IndexError | ZeroDivisionError

text \<open>Python's \<open>a / b\<close>: raises ZeroDivisionError when the divisor is zero.\<close>

definition true_div :: "real \<Rightarrow> real \<Rightarrow> exn + real" where
  "true_div a b = (if b = 0 then Inl ZeroDivisionError else Inr (a / b))"

text \<open>
  Python's \<open>xs[i]\<close> for an index that is never negative (every subscript in the
  source is 0, a loop index from 1 upwards, or that index minus one): raises IndexError
  at or beyond the length.
\<close>

definition getitem :: "'a list \<Rightarrow> nat \<Rightarrow> exn + 'a" where
  "getitem xs i = (if i < length xs then Inr (xs ! i) else Inl IndexError)"

text \<open>
  Inputs of ordinary magnitude: an integer of at most \<open>10^100\<close> in absolute value
  converts to a double, and with a rate between \<open>10^-100\<close> and \<open>10^100\<close> in
  absolute value every intermediate result of the utilization calculator lies between
  \<open>10^-303\<close> and \<open>10^198\<close> in absolute value or is zero, far inside the range of
  doubles.
\<close>

definition ordinary_int :: "int \<Rightarrow> bool" where
  "ordinary_int n = (\<bar>n\<bar> \<le> 10 ^ 100)"

definition ordinary_rate :: "real \<Rightarrow> bool" where
  "ordinary_rate r = (1 / 10 ^ 100 \<le> \<bar>r\<bar> \<and> \<bar>r\<bar> \<le> 10 ^ 100)"

section \<open>NetworkUtilizationCalculator.py\<close>

definition calculate_transmission_time :: "int \<Rightarrow> real \<Rightarrow> exn + real" where
  "calculate_transmission_time length_in_bytes rate_in_Mbps =
     (let packet_length = length_in_bytes;
          rate = rate_in_Mbps;
          packet_length = packet_length * 8;
          rate = rate * (1000 * 1000)
      in case true_div (real_of_int packet_length) rate of
           Inl e \<Rightarrow> Inl e
         | Inr transmission_time \<Rightarrow> Inr (transmission_time * 1000))"

text \<open>The dictionary \<open>known_data\<close> of \<open>calculate_network_utilization\<close>, with the
  types its docstring gives.\<close>

record utilization_data =
  length_in_bytes :: int
  rate_in_Mbps :: real
  rtt_in_ms :: int

text \<open>\<open>window_size\<close> is \<open>None\<close> by default.\<close>

definition calculate_network_utilization ::
  "utilization_data \<Rightarrow> int option \<Rightarrow> exn + real" where
  "calculate_network_utilization known_data window_size =
     (let packet_length = length_in_bytes known_data;
          rate = rate_in_Mbps known_data;
          rtt = real_of_int (rtt_in_ms known_data)
      in case calculate_transmission_time packet_length rate of
           Inl e \<Rightarrow> Inl e
         | Inr transmission_time \<Rightarrow>
             (let total_time = transmission_time + rtt
              in case true_div transmission_time total_time of
                   Inl e \<Rightarrow> Inl e
                 | Inr utilization \<Rightarrow>
                     (case (case window_size of
                              None \<Rightarrow> Inr 1
                            | Some w \<Rightarrow> true_div (real_of_int w) (real_of_int packet_length)) of
                        Inl e \<Rightarrow> Inl e
                      | Inr pipelined_packet_count \<Rightarrow>
                          Inr (utilization * pipelined_packet_count))))"

text \<open>The test data of \<open>main\<close> (lines 67 to 72).\<close>

definition main_known_data :: utilization_data where
  "main_known_data = \<lparr> length_in_bytes = 1000, rate_in_Mbps = 1000, rtt_in_ms = 15 * 2 \<rparr>"

section \<open>TransmissionTimeStatisticalMultiplexingCalculator.py\<close>

definition kibs_to_bytes :: "real \<Rightarrow> real" where
  "kibs_to_bytes kibs = kibs * 1024"

definition mibs_to_bytes :: "real \<Rightarrow> real" where
  "mibs_to_bytes mibs = mibs * 1024 * 1024"

text \<open>The dictionary \<open>known_data\<close> of the multiplexing calculator.\<close>

record known_data =
  total_link_rate_Mbps :: real
  sharing_computers_count :: int
  starting_time_seconds :: real
  file_sizes_bytes :: "real list"
  packet_payload_size_bytes :: real
  packet_header_size_bytes :: real

text \<open>
  Line 57, the list comprehension \<open>[ceil(size / payload) for size in file_sizes_bytes]\<close>:
  the division is evaluated once per file, so an empty list raises nothing.
\<close>

fun needed_packets_of :: "real list \<Rightarrow> real \<Rightarrow> exn + int list" where
  "needed_packets_of [] payload = Inr []"
| "needed_packets_of (size_in_bytes # rest) payload =
     (case true_div size_in_bytes payload of
        Inl e \<Rightarrow> Inl e
      | Inr q \<Rightarrow>
          (case needed_packets_of rest payload of
             Inl e \<Rightarrow> Inl e
           | Inr counts \<Rightarrow> Inr (\<lceil>q\<rceil> # counts)))"

subsection \<open>\<open>heapq.heappush\<close> on a Python list\<close>

text \<open>
  The heap holds tuples \<open>(packet_count, turn_order)\<close>. Python compares tuples
  lexicographically.
\<close>

definition tuple_lt :: "int \<times> nat \<Rightarrow> int \<times> nat \<Rightarrow> bool" where
  "tuple_lt x y = (fst x < fst y \<or> (fst x = fst y \<and> snd x < snd y))"

text \<open>
  The loop of \<open>heapq._siftdown(heap, startpos, pos)\<close>: while \<open>pos > startpos\<close>, a parent
  (at \<open>(pos - 1) >> 1\<close>) that is greater than the new item moves down to \<open>pos\<close>; the
  new item is stored where the loop stops.
\<close>

function siftdown_loop ::
  "(int \<times> nat) list \<Rightarrow> nat \<Rightarrow> nat \<Rightarrow> int \<times> nat \<Rightarrow> (int \<times> nat) list" where
  "siftdown_loop heap startpos pos newitem =
     (if pos > startpos then
        (let parentpos = (pos - 1) div 2;
             parent = heap ! parentpos
         in if tuple_lt newitem parent
            then siftdown_loop (heap[pos := parent]) startpos parentpos newitem
            else heap[pos := newitem])
      else heap[pos := newitem])"
  by pat_completeness auto
termination
  by (relation "measure (\<lambda>(heap, startpos, pos, newitem). pos)") auto

definition siftdown :: "(int \<times> nat) list \<Rightarrow> nat \<Rightarrow> nat \<Rightarrow> (int \<times> nat) list" where
  "siftdown heap startpos pos = siftdown_loop heap startpos pos (heap ! pos)"

definition heappush :: "(int \<times> nat) list \<Rightarrow> int \<times> nat \<Rightarrow> (int \<times> nat) list" where
  "heappush heap item = (let heap = heap @ [item] in siftdown heap 0 (length heap - 1))"

text \<open>Lines 63 to 65: every \<open>(packet_count, turn_order)\<close> of \<open>enumerate(needed_packets)\<close>
  is pushed, in turn order.\<close>

fun push_all :: "(int \<times> nat) list \<Rightarrow> nat \<Rightarrow> int list \<Rightarrow> (int \<times> nat) list" where
  "push_all heap turn_order [] = heap"
| "push_all heap turn_order (packet_count # rest) =
     push_all (heappush heap (packet_count, turn_order)) (Suc turn_order) rest"

subsection \<open>The completion times\<close>

text \<open>Lines 75 to 80 and 95 to 100:
  \<open>total_packets_at_file_done * total_packet_size_bits / total_link_rate_bps + starting_time_seconds\<close>.\<close>

definition time_when_file_done_seconds :: "int \<Rightarrow> real \<Rightarrow> real \<Rightarrow> real \<Rightarrow> exn + real" where
  "time_when_file_done_seconds total_packets_at_file_done total_packet_size_bits
       total_link_rate_bps starting_time =
     (case true_div (real_of_int total_packets_at_file_done * total_packet_size_bits)
             total_link_rate_bps of
        Inl e \<Rightarrow> Inl e
      | Inr t \<Rightarrow> Inr (t + starting_time))"

text \<open>
  The loop of lines 82 to 103 over the indices of \<open>range(1, len(heap))\<close>. It appends to
  \<open>times_at_each_packet_done_seconds\<close> only: the list
  \<open>total_packets_at_each_file_done\<close> is read at \<open>index - 1\<close> and no statement of the
  source ever adds to it, so it is passed along unchanged.
\<close>

fun transmit_loop ::
  "(int \<times> nat) list \<Rightarrow> int list \<Rightarrow> int \<Rightarrow> real \<Rightarrow> real \<Rightarrow> real \<Rightarrow> nat list \<Rightarrow>
     (real \<times> nat) list \<Rightarrow> exn + (real \<times> nat) list" where
  "transmit_loop heap total_packets_at_each_file_done computers bits rate_bps start [] times_done =
     Inr times_done"
| "transmit_loop heap total_packets_at_each_file_done computers bits rate_bps start
       (index # rest) times_done =
     (case getitem heap index of
        Inl e \<Rightarrow> Inl e
      | Inr size_and_order \<Rightarrow>
          (let total_packets_needed_this_file = fst size_and_order;
               turn_order = snd size_and_order
           in case getitem total_packets_at_each_file_done (index - 1) of
                Inl e \<Rightarrow> Inl e
              | Inr total_packets_at_previous_done \<Rightarrow>
                  (let remaining_packets_this_file_at_previous_done =
                         total_packets_needed_this_file - total_packets_at_previous_done;
                       total_packets_to_finish_this_file_at_previous_done =
                         remaining_packets_this_file_at_previous_done * (computers - int index);
                       total_packets_at_file_done =
                         total_packets_to_finish_this_file_at_previous_done
                           + total_packets_at_previous_done
                   in case time_when_file_done_seconds total_packets_at_file_done bits
                             rate_bps start of
                        Inl e \<Rightarrow> Inl e
                      | Inr t \<Rightarrow>
                          transmit_loop heap total_packets_at_each_file_done computers bits
                            rate_bps start rest (times_done @ [(t, turn_order)]))))"

definition calculate_transmission_time_statistical_multiplexing ::
  "known_data \<Rightarrow> exn + (real \<times> nat) list" where
  "calculate_transmission_time_statistical_multiplexing known_data =
     (let total_link_rate_bps = total_link_rate_Mbps known_data * 1000 * 1000;
          computers = sharing_computers_count known_data;
          start = starting_time_seconds known_data;
          file_sizes = file_sizes_bytes known_data;
          packet_payload_size = packet_payload_size_bytes known_data;
          packet_header_size = packet_header_size_bytes known_data
      in case needed_packets_of file_sizes packet_payload_size of
           Inl e \<Rightarrow> Inl e
         | Inr needed_packets \<Rightarrow>
             (let total_packet_size_bits = (packet_header_size + packet_payload_size) * 8;
                  file_order_indices_by_needed_packets_asc = push_all [] 0 needed_packets
              in case getitem file_order_indices_by_needed_packets_asc 0 of
                   Inl e \<Rightarrow> Inl e
                 | Inr smallest \<Rightarrow>
                     (let packet_count = fst smallest;
                          turn_order = snd smallest;
                          total_packets_at_file_done = packet_count * computers;
                          total_packets_at_each_file_done = [total_packets_at_file_done]
                      in case time_when_file_done_seconds total_packets_at_file_done
                                total_packet_size_bits total_link_rate_bps start of
                           Inl e \<Rightarrow> Inl e
                         | Inr t \<Rightarrow>
                             transmit_loop file_order_indices_by_needed_packets_asc
                               total_packets_at_each_file_done computers total_packet_size_bits
                               total_link_rate_bps start
                               [1 ..< length file_order_indices_by_needed_packets_asc]
                               [(t, turn_order)])))"

text \<open>The input of the module's own demonstration (lines 110 to 120).\<close>

definition demo_known_data :: known_data where
  "demo_known_data =
     \<lparr> total_link_rate_Mbps = 52 / 10,
       sharing_computers_count = 2,
       starting_time_seconds = 0,
       file_sizes_bytes = [mibs_to_bytes 3, kibs_to_bytes 165],
       packet_payload_size_bytes = 1000,
       packet_header_size_bytes = 24 \<rparr>"

text \<open>
  Further inputs, with the framing and the link of the demonstration: three files in
  descending, in ascending and in tied sizes, two files of equal size, and four files.
\<close>

definition descending_files_known_data :: known_data where
  "descending_files_known_data =
     \<lparr> total_link_rate_Mbps = 52 / 10, sharing_computers_count = 3,
       starting_time_seconds = 0, file_sizes_bytes = [3000, 2000, 1000],
       packet_payload_size_bytes = 1000, packet_header_size_bytes = 24 \<rparr>"

definition ascending_files_known_data :: known_data where
  "ascending_files_known_data =
     \<lparr> total_link_rate_Mbps = 52 / 10, sharing_computers_count = 3,
       starting_time_seconds = 0, file_sizes_bytes = [1000, 2000, 3000],
       packet_payload_size_bytes = 1000, packet_header_size_bytes = 24 \<rparr>"

definition tied_files_known_data :: known_data where
  "tied_files_known_data =
     \<lparr> total_link_rate_Mbps = 52 / 10, sharing_computers_count = 3,
       starting_time_seconds = 0, file_sizes_bytes = [5000, 5000, 1000],
       packet_payload_size_bytes = 1000, packet_header_size_bytes = 24 \<rparr>"

definition equal_files_known_data :: known_data where
  "equal_files_known_data =
     \<lparr> total_link_rate_Mbps = 52 / 10, sharing_computers_count = 2,
       starting_time_seconds = 0, file_sizes_bytes = [1000, 1000],
       packet_payload_size_bytes = 1000, packet_header_size_bytes = 24 \<rparr>"

definition four_files_known_data :: known_data where
  "four_files_known_data =
     \<lparr> total_link_rate_Mbps = 52 / 10, sharing_computers_count = 4,
       starting_time_seconds = 0, file_sizes_bytes = [1000, 2000, 3000, 4000],
       packet_payload_size_bytes = 1000, packet_header_size_bytes = 24 \<rparr>"

section \<open>The utilization calculator: what it returns and when it raises\<close>

lemma calculate_transmission_time_eq:
  "calculate_transmission_time l r =
     (if r = 0 then Inl ZeroDivisionError
      else Inr (real_of_int l * 8 / (r * 1000000) * 1000))"
  by (simp add: calculate_transmission_time_def true_div_def)

lemma calculate_network_utilization_eq:
  "calculate_network_utilization kd w =
     (if rate_in_Mbps kd = 0 then Inl ZeroDivisionError
      else let tt = real_of_int (length_in_bytes kd) * 8 / (rate_in_Mbps kd * 1000000) * 1000;
               rtt = real_of_int (rtt_in_ms kd)
           in if tt + rtt = 0 then Inl ZeroDivisionError
              else (case w of
                      None \<Rightarrow> Inr (tt / (tt + rtt))
                    | Some ws \<Rightarrow>
                        if length_in_bytes kd = 0 then Inl ZeroDivisionError
                        else Inr (tt / (tt + rtt)
                                   * (real_of_int ws / real_of_int (length_in_bytes kd)))))"
  by (simp add: calculate_network_utilization_def calculate_transmission_time_eq true_div_def
        Let_def split: option.split)

lemma ordinary_rate_nonzero: "ordinary_rate r \<Longrightarrow> r \<noteq> 0"
  by (auto simp: ordinary_rate_def)

text \<open>
  Claim C7, as amended. For every length and every rate other than zero, both of
  ordinary magnitude, \<open>calculate_transmission_time\<close> returns
  \<open>(length_in_bytes * 8) / (rate_in_Mbps * 1000000) * 1000\<close> milliseconds (the double it
  returns stands for this real), and \<open>calculate_transmission_time(1000, 1000)\<close> is
  0.008 ms.
\<close>

theorem transmission_time_formula:
  "(ordinary_int l \<and> ordinary_rate r \<longrightarrow>
      calculate_transmission_time l r = Inr (real_of_int l * 8 / (r * 1000000) * 1000))
   \<and> calculate_transmission_time 1000 1000 = Inr (8 / 1000)"
  by (auto simp: calculate_transmission_time_eq dest: ordinary_rate_nonzero)

theorem transmission_time_formula_witness:
  "ordinary_int 1000 \<and> ordinary_rate 1000
   \<and> calculate_transmission_time 1000 1000
       = Inr (real_of_int 1000 * 8 / (1000 * 1000000) * 1000)"
  using transmission_time_formula [of 1000 1000]
  by (simp add: ordinary_int_def ordinary_rate_def)

text \<open>
  C7 as stated fails at rate 0: the division raises ZeroDivisionError and no time is
  returned.
\<close>

theorem transmission_time_zero_rate:
  "calculate_transmission_time 1000 0 = Inl ZeroDivisionError
   \<and> calculate_transmission_time 1000 0 \<noteq> Inr (real_of_int 1000 * 8 / (0 * 1000000) * 1000)"
  by (simp add: calculate_transmission_time_eq)

text \<open>
  Claim C8, as amended. For every input of ordinary magnitude with a length and a
  round-trip time that are not negative, a positive rate, and a transmission time
  \<open>tt\<close> with \<open>tt + rtt_in_ms\<close> not zero, \<open>calculate_network_utilization\<close> with no
  window returns \<open>tt / (tt + rtt_in_ms)\<close>; with a window (of ordinary magnitude) and a
  length other than zero it returns exactly that value times
  \<open>window_size / length_in_bytes\<close>, a fraction that is not rounded; with window 5020 and
  length 1000 it returns exactly that value times 5.02.
\<close>

theorem utilization_window_relation:
  assumes "calculate_transmission_time (length_in_bytes kd) (rate_in_Mbps kd) = Inr tt"
    and "0 \<le> length_in_bytes kd" and "ordinary_int (length_in_bytes kd)"
    and "0 < rate_in_Mbps kd" and "ordinary_rate (rate_in_Mbps kd)"
    and "0 \<le> rtt_in_ms kd" and "ordinary_int (rtt_in_ms kd)"
    and "tt + real_of_int (rtt_in_ms kd) \<noteq> 0"
  shows "calculate_network_utilization kd None = Inr (tt / (tt + real_of_int (rtt_in_ms kd)))
    \<and> (length_in_bytes kd \<noteq> 0 \<and> ordinary_int w \<longrightarrow>
         calculate_network_utilization kd (Some w)
           = Inr (tt / (tt + real_of_int (rtt_in_ms kd))
                   * (real_of_int w / real_of_int (length_in_bytes kd))))
    \<and> (length_in_bytes kd = 1000 \<longrightarrow>
         calculate_network_utilization kd (Some 5020)
           = Inr (tt / (tt + real_of_int (rtt_in_ms kd)) * (502 / 100)))"
proof -
  let ?u = "tt / (tt + real_of_int (rtt_in_ms kd))"
  have no_window: "calculate_network_utilization kd None = Inr ?u"
    using assms(1,8) by (simp add: calculate_network_utilization_def true_div_def)
  have window: "calculate_network_utilization kd (Some v)
                  = Inr (?u * (real_of_int v / real_of_int (length_in_bytes kd)))"
    if "length_in_bytes kd \<noteq> 0" for v
    using assms(1,8) that by (simp add: calculate_network_utilization_def true_div_def)
  have "calculate_network_utilization kd (Some 5020) = Inr (?u * (502 / 100))"
    if len: "length_in_bytes kd = 1000"
  proof -
    have "calculate_network_utilization kd (Some 5020)
            = Inr (?u * (real_of_int 5020 / real_of_int (length_in_bytes kd)))"
      using len by (intro window) simp
    also have "real_of_int 5020 / real_of_int (length_in_bytes kd) = 502 / 100"
      using len by simp
    finally show ?thesis .
  qed
  with no_window window show ?thesis by blast
qed

theorem utilization_window_relation_witness:
  "calculate_transmission_time (length_in_bytes main_known_data) (rate_in_Mbps main_known_data)
     = Inr (8 / 1000)
   \<and> 0 \<le> length_in_bytes main_known_data \<and> ordinary_int (length_in_bytes main_known_data)
   \<and> 0 < rate_in_Mbps main_known_data \<and> ordinary_rate (rate_in_Mbps main_known_data)
   \<and> 0 \<le> rtt_in_ms main_known_data \<and> ordinary_int (rtt_in_ms main_known_data)
   \<and> 8 / 1000 + real_of_int (rtt_in_ms main_known_data) \<noteq> 0
   \<and> length_in_bytes main_known_data = 1000 \<and> ordinary_int 5020
   \<and> calculate_network_utilization main_known_data None = Inr ((8 / 1000) / (8 / 1000 + 30))
   \<and> calculate_network_utilization main_known_data (Some 5020)
       = Inr ((8 / 1000) / (8 / 1000 + 30) * (502 / 100))"
proof -
  have tt: "calculate_transmission_time (length_in_bytes main_known_data)
              (rate_in_Mbps main_known_data) = Inr (8 / 1000)"
    by (simp add: main_known_data_def calculate_transmission_time_eq)
  have len0: "0 \<le> length_in_bytes main_known_data"
    and len1: "ordinary_int (length_in_bytes main_known_data)"
    and rate0: "0 < rate_in_Mbps main_known_data"
    and rate1: "ordinary_rate (rate_in_Mbps main_known_data)"
    and rtt0: "0 \<le> rtt_in_ms main_known_data"
    and rtt1: "ordinary_int (rtt_in_ms main_known_data)"
    by (simp_all add: main_known_data_def ordinary_int_def ordinary_rate_def)
  have total: "8 / 1000 + real_of_int (rtt_in_ms main_known_data) \<noteq> 0"
    by (simp add: main_known_data_def)
  have len: "length_in_bytes main_known_data = 1000"
    by (simp add: main_known_data_def)
  have w: "ordinary_int 5020"
    by (simp add: ordinary_int_def)
  have rtt: "real_of_int (rtt_in_ms main_known_data) = 30"
    by (simp add: main_known_data_def)
  show ?thesis
    using utilization_window_relation [OF tt len0 len1 rate0 rate1 rtt0 rtt1 total, of 5020]
      tt len0 len1 rate0 rate1 rtt0 rtt1 total len w rtt
    by simp
qed

text \<open>
  C8 as stated fails on three inputs, where nothing is returned: a rate of zero, a
  transmission time that cancels the round-trip time, and a window with length zero.
\<close>

theorem utilization_raises_counterexample:
  "calculate_network_utilization
       \<lparr> length_in_bytes = 1000, rate_in_Mbps = 0, rtt_in_ms = 30 \<rparr> None
     = Inl ZeroDivisionError
   \<and> calculate_network_utilization
       \<lparr> length_in_bytes = 125, rate_in_Mbps = 1, rtt_in_ms = - 1 \<rparr> None
     = Inl ZeroDivisionError
   \<and> calculate_network_utilization
       \<lparr> length_in_bytes = 0, rate_in_Mbps = 1000, rtt_in_ms = 30 \<rparr> (Some 5020)
     = Inl ZeroDivisionError"
  by (simp add: calculate_network_utilization_eq)

text \<open>
  Claim C9, as amended, for inputs of ordinary magnitude. A rate of zero divides by
  zero. With \<open>length_in_bytes = 0\<close> (and a rate other than zero) the computation
  divides by zero exactly when a window is given or \<open>rtt_in_ms\<close> is zero; with length
  zero, no window and a round-trip time other than zero it returns 0. With positive
  length and rate and a round-trip time that is not negative, nothing is divided by zero
  and a value is returned.
\<close>

theorem utilization_division_by_zero:
  "(rate_in_Mbps kd = 0 \<and> ordinary_int (length_in_bytes kd) \<and> ordinary_int (rtt_in_ms kd) \<longrightarrow>
      calculate_network_utilization kd w = Inl ZeroDivisionError)
   \<and> (length_in_bytes kd = 0 \<and> ordinary_rate (rate_in_Mbps kd)
        \<and> ordinary_int (rtt_in_ms kd) \<longrightarrow>
        (calculate_network_utilization kd w = Inl ZeroDivisionError)
          = (w \<noteq> None \<or> rtt_in_ms kd = 0)
        \<and> (w = None \<and> rtt_in_ms kd \<noteq> 0 \<longrightarrow> calculate_network_utilization kd w = Inr 0))
   \<and> (0 < length_in_bytes kd \<and> ordinary_int (length_in_bytes kd)
        \<and> 0 < rate_in_Mbps kd \<and> ordinary_rate (rate_in_Mbps kd)
        \<and> 0 \<le> rtt_in_ms kd \<and> ordinary_int (rtt_in_ms kd)
        \<and> (\<forall>v. w = Some v \<longrightarrow> ordinary_int v) \<longrightarrow>
        (\<exists>u. calculate_network_utilization kd w = Inr u))"
proof (intro conjI impI)
  show "calculate_network_utilization kd w = Inl ZeroDivisionError"
    if "rate_in_Mbps kd = 0 \<and> ordinary_int (length_in_bytes kd) \<and> ordinary_int (rtt_in_ms kd)"
    using that by (simp add: calculate_network_utilization_eq)
  assume zero_length: "length_in_bytes kd = 0 \<and> ordinary_rate (rate_in_Mbps kd)
                 \<and> ordinary_int (rtt_in_ms kd)"
  then have zero: "length_in_bytes kd = 0 \<and> rate_in_Mbps kd \<noteq> 0"
    by (simp add: ordinary_rate_nonzero)
  show "(calculate_network_utilization kd w = Inl ZeroDivisionError)
          = (w \<noteq> None \<or> rtt_in_ms kd = 0)"
    using zero by (cases w) (simp_all add: calculate_network_utilization_eq Let_def)
  show "calculate_network_utilization kd w = Inr 0"
    if "w = None \<and> rtt_in_ms kd \<noteq> 0"
    using zero that by (simp add: calculate_network_utilization_eq Let_def)
next
  assume pos: "0 < length_in_bytes kd \<and> ordinary_int (length_in_bytes kd)
        \<and> 0 < rate_in_Mbps kd \<and> ordinary_rate (rate_in_Mbps kd)
        \<and> 0 \<le> rtt_in_ms kd \<and> ordinary_int (rtt_in_ms kd)
        \<and> (\<forall>v. w = Some v \<longrightarrow> ordinary_int v)"
  have "0 < real_of_int (length_in_bytes kd) * 8 / (rate_in_Mbps kd * 1000000) * 1000"
    using pos by simp
  then have "real_of_int (length_in_bytes kd) * 8 / (rate_in_Mbps kd * 1000000) * 1000
               + real_of_int (rtt_in_ms kd) \<noteq> 0"
    using pos by (smt (verit) of_int_0_le_iff)
  then show "\<exists>u. calculate_network_utilization kd w = Inr u"
    using pos by (simp add: calculate_network_utilization_eq Let_def split: option.split)
qed

theorem utilization_division_by_zero_witness:
  "rate_in_Mbps \<lparr> length_in_bytes = 1000, rate_in_Mbps = 0, rtt_in_ms = 30 \<rparr> = 0
   \<and> ordinary_int 1000 \<and> ordinary_int 30 \<and> ordinary_int 0 \<and> ordinary_int 5020
   \<and> ordinary_rate 1000
   \<and> calculate_network_utilization
       \<lparr> length_in_bytes = 1000, rate_in_Mbps = 0, rtt_in_ms = 30 \<rparr> None
       = Inl ZeroDivisionError
   \<and> calculate_network_utilization
       \<lparr> length_in_bytes = 0, rate_in_Mbps = 1000, rtt_in_ms = 30 \<rparr> None = Inr 0
   \<and> calculate_network_utilization
       \<lparr> length_in_bytes = 0, rate_in_Mbps = 1000, rtt_in_ms = 30 \<rparr> (Some 5020)
       = Inl ZeroDivisionError
   \<and> (\<exists>u. calculate_network_utilization main_known_data (Some 5020) = Inr u)"
  using utilization_division_by_zero
          [of "\<lparr> length_in_bytes = 1000, rate_in_Mbps = 0, rtt_in_ms = 30 \<rparr>" None]
        utilization_division_by_zero
          [of "\<lparr> length_in_bytes = 0, rate_in_Mbps = 1000, rtt_in_ms = 30 \<rparr>" None]
        utilization_division_by_zero
          [of "\<lparr> length_in_bytes = 0, rate_in_Mbps = 1000, rtt_in_ms = 30 \<rparr>" "Some 5020"]
        utilization_division_by_zero [of main_known_data "Some 5020"]
  by (simp add: main_known_data_def ordinary_int_def ordinary_rate_def)

text \<open>
  C9 as stated fails both ways: with length zero and no window nothing is divided by
  zero and 0 is returned; with length and rate not zero the division by the total time
  can still be a division by zero.
\<close>

theorem utilization_zero_length_counterexample:
  "calculate_network_utilization
       \<lparr> length_in_bytes = 0, rate_in_Mbps = 1000, rtt_in_ms = 30 \<rparr> None = Inr 0
   \<and> calculate_network_utilization
       \<lparr> length_in_bytes = 125, rate_in_Mbps = 1, rtt_in_ms = - 1 \<rparr> None
     = Inl ZeroDivisionError"
  by (simp add: calculate_network_utilization_eq)

section \<open>The multiplexing calculator\<close>

subsection \<open>The needed packets, the heap and the loop\<close>

lemma needed_packets_of_eq:
  "needed_packets_of sizes payload =
     (if payload = 0 \<and> sizes \<noteq> [] then Inl ZeroDivisionError
      else Inr (map (\<lambda>s. \<lceil>s / payload\<rceil>) sizes))"
  by (induction sizes) (auto simp: true_div_def)

declare siftdown_loop.simps [simp del]

lemma length_siftdown_loop: "length (siftdown_loop heap startpos pos newitem) = length heap"
proof (induction heap startpos pos newitem rule: siftdown_loop.induct)
  case (1 heap startpos pos newitem)
  show ?case
    using "1.IH" by (subst siftdown_loop.simps) (simp add: Let_def)
qed

lemma length_heappush: "length (heappush heap item) = Suc (length heap)"
  by (simp add: heappush_def siftdown_def length_siftdown_loop)

lemma length_push_all: "length (push_all heap turn_order counts) = length heap + length counts"
  by (induction counts arbitrary: heap turn_order) (simp_all add: length_heappush)

lemma transmit_loop_raises:
  assumes "3 \<le> length heap" and "rate_bps \<noteq> 0"
  shows "transmit_loop heap [previous] computers bits rate_bps start [1 ..< length heap]
           times_done = Inl IndexError"
proof -
  have idx: "[1 ..< length heap] = 1 # 2 # [3 ..< length heap]"
    using assms(1) by (simp add: upt_rec numeral_2_eq_2 numeral_3_eq_3)
  have at_one: "getitem heap 1 = Inr (heap ! 1)"
    using assms(1) by (simp add: getitem_def)
  have at_two: "getitem heap 2 = Inr (heap ! 2)"
    using assms(1) by (simp add: getitem_def)
  have previous_one: "getitem [previous] (1 - 1) = Inr previous"
    by (simp add: getitem_def)
  have previous_two: "getitem [previous] (2 - 1) = Inl IndexError"
    by (simp add: getitem_def)
  show ?thesis
    unfolding idx transmit_loop.simps at_one at_two previous_one previous_two
    using assms(2) by (simp add: time_when_file_done_seconds_def true_div_def Let_def)
qed

lemma scheduler_unfold:
  assumes "packet_payload_size_bytes kd \<noteq> 0" and "file_sizes_bytes kd \<noteq> []"
    and "total_link_rate_Mbps kd \<noteq> 0"
    and "heap = push_all [] 0
                  (map (\<lambda>s. \<lceil>s / packet_payload_size_bytes kd\<rceil>) (file_sizes_bytes kd))"
    and "bits = (packet_header_size_bytes kd + packet_payload_size_bytes kd) * 8"
    and "rate_bps = total_link_rate_Mbps kd * 1000 * 1000"
    and "first_total = fst (heap ! 0) * sharing_computers_count kd"
  shows "calculate_transmission_time_statistical_multiplexing kd =
           transmit_loop heap [first_total] (sharing_computers_count kd) bits rate_bps
             (starting_time_seconds kd) [1 ..< length heap]
             [(real_of_int first_total * bits / rate_bps + starting_time_seconds kd,
               snd (heap ! 0))]"
proof -
  have "length heap = length (file_sizes_bytes kd)"
    using assms(4) by (simp add: length_push_all)
  then have "getitem heap 0 = Inr (heap ! 0)"
    using assms(2) by (simp add: getitem_def)
  then show ?thesis
    using assms
    by (simp add: calculate_transmission_time_statistical_multiplexing_def
          needed_packets_of_eq Let_def time_when_file_done_seconds_def true_div_def
          del: upt_Suc)
qed

lemma no_files_raise:
  "file_sizes_bytes kd = [] \<Longrightarrow>
     calculate_transmission_time_statistical_multiplexing kd = Inl IndexError"
  by (simp add: calculate_transmission_time_statistical_multiplexing_def getitem_def)

lemma one_file:
  assumes "file_sizes_bytes kd = [s0]" and "packet_payload_size_bytes kd \<noteq> 0"
    and "total_link_rate_Mbps kd \<noteq> 0"
  shows "calculate_transmission_time_statistical_multiplexing kd =
           Inr [(real_of_int (\<lceil>s0 / packet_payload_size_bytes kd\<rceil> * sharing_computers_count kd)
                   * ((packet_header_size_bytes kd + packet_payload_size_bytes kd) * 8)
                   / (total_link_rate_Mbps kd * 1000 * 1000) + starting_time_seconds kd, 0)]"
  using assms
  by (simp add: calculate_transmission_time_statistical_multiplexing_def true_div_def
        heappush_def siftdown_def siftdown_loop.simps getitem_def
        time_when_file_done_seconds_def Let_def)

lemma push_two:
  "push_all [] 0 [p0, p1] = (if p1 < p0 then [(p1, 1), (p0, 0)] else [(p0, 0), (p1, 1)])"
  by (simp add: heappush_def siftdown_def siftdown_loop.simps tuple_lt_def Let_def)

lemma two_files:
  assumes "file_sizes_bytes kd = [s0, s1]" and "packet_payload_size_bytes kd \<noteq> 0"
    and "total_link_rate_Mbps kd \<noteq> 0"
    and "heap = push_all [] 0 [\<lceil>s0 / packet_payload_size_bytes kd\<rceil>,
                                \<lceil>s1 / packet_payload_size_bytes kd\<rceil>]"
    and "bits = (packet_header_size_bytes kd + packet_payload_size_bytes kd) * 8"
    and "rate_bps = total_link_rate_Mbps kd * 1000 * 1000"
    and "first_total = fst (heap ! 0) * sharing_computers_count kd"
    and "second_total =
           (fst (heap ! 1) - first_total) * (sharing_computers_count kd - 1) + first_total"
  shows "calculate_transmission_time_statistical_multiplexing kd =
           Inr [(real_of_int first_total * bits / rate_bps + starting_time_seconds kd,
                 snd (heap ! 0)),
                (real_of_int second_total * bits / rate_bps + starting_time_seconds kd,
                 snd (heap ! 1))]"
proof -
  have heap: "heap = push_all [] 0
                (map (\<lambda>s. \<lceil>s / packet_payload_size_bytes kd\<rceil>) (file_sizes_bytes kd))"
    using assms(1,4) by simp
  have nonempty: "file_sizes_bytes kd \<noteq> []"
    using assms(1) by simp
  have "length heap = length (file_sizes_bytes kd)"
    unfolding heap by (simp add: length_push_all)
  then have len: "length heap = 2"
    using assms(1) by simp
  have idx: "[1 ..< length heap] = [1]"
    using len by (simp add: upt_rec)
  have at_one: "getitem heap 1 = Inr (heap ! 1)"
    using len by (simp add: getitem_def)
  have rate: "rate_bps \<noteq> 0"
    using assms(3,6) by simp
  show ?thesis
    unfolding scheduler_unfold [OF assms(2) nonempty assms(3) heap assms(5,6,7)] idx
      transmit_loop.simps at_one
    using rate assms(8)
    by (simp add: getitem_def time_when_file_done_seconds_def true_div_def Let_def)
qed

subsection \<open>The claims about the multiplexing calculator\<close>

text \<open>
  Claim C4, as amended. For whole numbers of bytes, file sizes from 0 to below
  \<open>2^53\<close> and a payload size from 1 to \<open>2^53\<close> (where the double quotient of line 57
  cannot round across a whole number), the needed-packet count of every sender \<open>i\<close>
  is the ceiling of \<open>file_sizes_bytes[i] / packet_payload_size_bytes\<close>; a size that
  is \<open>k\<close> times the payload size needs exactly \<open>k\<close> packets; and the count is neither
  too small nor too large: that many payloads hold the file and one fewer would not.
\<close>

theorem needed_packets_ceiling:
  assumes "1 \<le> p" and "p \<le> 2 ^ 53" and "\<forall>s\<in>set sizes. 0 \<le> s \<and> s < 2 ^ 53"
  shows "\<exists>counts. needed_packets_of (map real_of_int sizes) (real_of_int p) = Inr counts
           \<and> length counts = length sizes
           \<and> (\<forall>i<length sizes.
                  counts ! i = \<lceil>real_of_int (sizes ! i) / real_of_int p\<rceil>
                  \<and> (\<forall>k. sizes ! i = k * p \<longrightarrow> counts ! i = k)
                  \<and> (counts ! i - 1) * p < sizes ! i
                  \<and> sizes ! i \<le> counts ! i * p)"
proof (intro exI conjI allI impI)
  let ?counts = "map (\<lambda>s. \<lceil>real_of_int s / real_of_int p\<rceil>) sizes"
  have p: "0 < real_of_int p"
    using assms(1) by simp
  show "needed_packets_of (map real_of_int sizes) (real_of_int p) = Inr ?counts"
    using p by (simp add: needed_packets_of_eq comp_def)
  show "length ?counts = length sizes"
    by simp
  fix i
  assume i: "i < length sizes"
  let ?c = "\<lceil>real_of_int (sizes ! i) / real_of_int p\<rceil>"
  show at_i: "?counts ! i = ?c"
    using i by simp
  show "?counts ! i = k" if "sizes ! i = k * p" for k
    using i that p by simp
  have "real_of_int ?c - 1 < real_of_int (sizes ! i) / real_of_int p"
    by linarith
  then have "(real_of_int ?c - 1) * real_of_int p < real_of_int (sizes ! i)"
    using p by (simp add: pos_less_divide_eq)
  then have "real_of_int ((?c - 1) * p) < real_of_int (sizes ! i)"
    by simp
  then show "(?counts ! i - 1) * p < sizes ! i"
    unfolding at_i by (simp only: of_int_less_iff)
  have "real_of_int (sizes ! i) / real_of_int p \<le> real_of_int ?c"
    by linarith
  then have "real_of_int (sizes ! i) \<le> real_of_int ?c * real_of_int p"
    using p by (metis pos_divide_le_eq)
  then have "real_of_int (sizes ! i) \<le> real_of_int (?c * p)"
    by simp
  then show "sizes ! i \<le> ?counts ! i * p"
    unfolding at_i by (simp only: of_int_le_iff)
qed

theorem needed_packets_ceiling_witness:
  "(1 :: int) \<le> 1000 \<and> (1000 :: int) \<le> 2 ^ 53
   \<and> (0 :: int) \<le> 3145728 \<and> (3145728 :: int) < 2 ^ 53
   \<and> (0 :: int) \<le> 168960 \<and> (168960 :: int) < 2 ^ 53
   \<and> (0 :: int) \<le> 2000 \<and> (2000 :: int) < 2 ^ 53
   \<and> needed_packets_of (map real_of_int [3145728, 168960, 2000]) (real_of_int 1000)
       = Inr [3146, 169, 2]
   \<and> (2000 :: int) = 2 * 1000"
  using needed_packets_ceiling [of 1000 "[3145728, 168960, 2000]"]
  by (simp add: true_div_def)

text \<open>
  C4 as stated fails at a payload size of zero: line 57 raises ZeroDivisionError and
  no sender has a needed-packet count.
\<close>

theorem needed_packets_zero_payload:
  "needed_packets_of [1000] 0 = Inl ZeroDivisionError
   \<and> calculate_transmission_time_statistical_multiplexing
       (demo_known_data \<lparr> packet_payload_size_bytes := 0 \<rparr>) = Inl ZeroDivisionError"
  by (simp add: calculate_transmission_time_statistical_multiplexing_def demo_known_data_def
        true_div_def mibs_to_bytes_def kibs_to_bytes_def)

text \<open>
  Claim C5. On the input of the demonstration (two computers, files of 3 MiB = 3145728
  and 165 KiB = 168960 bytes, payload 1000, header 24, 5.2 Mbps, start 0) the needed
  packets are 3146 and 169, and the result is exactly two pairs, turn order 1 (the
  smaller file) first, its time less than the time of turn order 0.
\<close>

theorem demo_scenario:
  "file_sizes_bytes demo_known_data = [3145728, 168960]
   \<and> needed_packets_of (file_sizes_bytes demo_known_data)
       (packet_payload_size_bytes demo_known_data) = Inr [3146, 169]
   \<and> calculate_transmission_time_statistical_multiplexing demo_known_data
       = Inr [(338 * 8192 / 5200000, 1), (3146 * 8192 / 5200000, 0)]
   \<and> (338 * 8192 / 5200000 :: real) < 3146 * 8192 / 5200000"
  by code_simp

text \<open>
  Claim C10. With three or more files the calculator never returns: the second pass of
  the loop reads \<open>total_packets_at_each_file_done[1]\<close>, and that list only ever holds
  the first total, so IndexError is raised (ZeroDivisionError earlier, when the payload
  size or the link rate is zero). No sequence of \<open>n\<close> pairs is returned for
  \<open>n \<ge> 3\<close>.
\<close>

theorem three_or_more_files_raise:
  assumes "3 \<le> length (file_sizes_bytes kd)"
  shows "calculate_transmission_time_statistical_multiplexing kd =
           (if packet_payload_size_bytes kd = 0 \<or> total_link_rate_Mbps kd = 0
            then Inl ZeroDivisionError else Inl IndexError)"
proof -
  define heap where
    "heap = push_all [] 0
              (map (\<lambda>s. \<lceil>s / packet_payload_size_bytes kd\<rceil>) (file_sizes_bytes kd))"
  have nonempty: "file_sizes_bytes kd \<noteq> []"
    using assms by auto
  have len: "length heap = length (file_sizes_bytes kd)"
    by (simp add: heap_def length_push_all)
  have first: "getitem heap 0 = Inr (heap ! 0)"
    using nonempty len by (simp add: getitem_def)
  show ?thesis
  proof (cases "packet_payload_size_bytes kd = 0")
    case True
    then show ?thesis
      using nonempty
      by (simp add: calculate_transmission_time_statistical_multiplexing_def
            needed_packets_of_eq)
  next
    case payload: False
    show ?thesis
    proof (cases "total_link_rate_Mbps kd = 0")
      case True
      then show ?thesis
        using payload first
        by (simp add: calculate_transmission_time_statistical_multiplexing_def
              needed_packets_of_eq Let_def time_when_file_done_seconds_def true_div_def
              heap_def)
    next
      case rate: False
      have "calculate_transmission_time_statistical_multiplexing kd = Inl IndexError"
        unfolding scheduler_unfold [OF payload nonempty rate heap_def refl refl refl]
        using assms len rate by (intro transmit_loop_raises) simp_all
      then show ?thesis
        using payload rate by simp
    qed
  qed
qed

theorem three_or_more_files_raise_witness:
  "3 \<le> length (file_sizes_bytes four_files_known_data)
   \<and> calculate_transmission_time_statistical_multiplexing four_files_known_data
       = Inl IndexError"
  using three_or_more_files_raise [of four_files_known_data]
  by (simp add: four_files_known_data_def)

text \<open>
  Claim C1. For the files 3000, 2000 and 1000 bytes the needed packets are 3, 2 and 1,
  and the list the loop walks by index as "size order" is the heap's array
  \<open>[(1, 2), (3, 0), (2, 1)]\<close>: the sender needing 3 packets comes before the one needing
  2. The call then raises IndexError, so no sequence in sorted order is returned.
\<close>

theorem descending_files_heap_order:
  "needed_packets_of (file_sizes_bytes descending_files_known_data)
       (packet_payload_size_bytes descending_files_known_data) = Inr [3, 2, 1]
   \<and> push_all [] 0 [3, 2, 1] = [(1, 2), (3, 0), (2, 1)]
   \<and> calculate_transmission_time_statistical_multiplexing descending_files_known_data
       = Inl IndexError"
  by code_simp

text \<open>
  Claim C2. For the files 1000, 2000 and 3000 bytes and three computers the heap is
  \<open>[(1, 0), (2, 1), (3, 2)]\<close> and \<open>total_packets_at_each_file_done\<close> is \<open>[1 * 3]\<close>
  throughout. At sorted position 2 the total of position 1 is read from index
  \<open>2 - 1\<close> of that list, which raises IndexError: no total and no time is computed
  for a position beyond 1.
\<close>

theorem ascending_files_previous_total:
  "push_all [] 0 [1, 2, 3] = [(1, 0), (2, 1), (3, 2)]
   \<and> getitem [1 * 3 :: int] (2 - 1) = Inl IndexError
   \<and> calculate_transmission_time_statistical_multiplexing ascending_files_known_data
       = Inl IndexError"
  by code_simp

text \<open>
  Claim C3. For two files of 1000 bytes each (payload 1000, header 24, 5.2 Mbps, two
  computers) the result is \<open>[(2 * 8192 / 5200000, 0), (1 * 8192 / 5200000, 1)]\<close>: the
  second completion time is smaller than the first.
\<close>

theorem equal_files_times_decrease:
  "calculate_transmission_time_statistical_multiplexing equal_files_known_data
     = Inr [(2 * 8192 / 5200000, 0), (1 * 8192 / 5200000, 1)]
   \<and> (1 * 8192 / 5200000 :: real) < 2 * 8192 / 5200000"
  by code_simp

text \<open>
  Claim C6. For the files 5000, 5000 and 1000 bytes the needed packets are 5, 5 and 1,
  and the heap's array is \<open>[(1, 2), (5, 1), (5, 0)]\<close>: of the two senders that need 5
  packets, turn order 1 comes before turn order 0. The call then raises IndexError, so
  no sequence with the tie in ascending turn order is returned.
\<close>

theorem tied_files_heap_order:
  "needed_packets_of (file_sizes_bytes tied_files_known_data)
       (packet_payload_size_bytes tied_files_known_data) = Inr [5, 5, 1]
   \<and> push_all [] 0 [5, 5, 1] = [(1, 2), (5, 1), (5, 0)]
   \<and> calculate_transmission_time_statistical_multiplexing tied_files_known_data
       = Inl IndexError"
  by code_simp

end
